theory Spec2Isabelle
  imports Main "HOL-Library.Char_ord" "HOL-Library.List_Lexorder" "HOL-Library.AList"
    "HOL-Library.Word"
begin

section \<open>Go strings and the standard-library functions the tunnel core calls\<close>

text \<open>
  A Go string is a sequence of bytes, modelled as \<^typ>\<open>string\<close> (a list of 8-bit
  characters). The library functions below follow the Go standard library on ASCII text:
  \<open>strings.ToLower\<close> maps \<open>A..Z\<close> to \<open>a..z\<close>, \<open>strings.TrimSpace\<close> removes the six
  ASCII white-space bytes (tab, line feed, vertical tab, form feed, carriage return,
  space). Bytes from 0x80 on are carried through unchanged, so the Unicode case mapping
  and the Unicode spaces of multi-byte text are outside the model.
\<close>

definition lower_char :: "char \<Rightarrow> char" where
  "lower_char c =
     (let n = (of_char c :: nat) in if 65 \<le> n \<and> n \<le> 90 then char_of (n + 32) else c)"

definition upper_char :: "char \<Rightarrow> char" where
  "upper_char c =
     (let n = (of_char c :: nat) in if 97 \<le> n \<and> n \<le> 122 then char_of (n - 32) else c)"

definition ToLower :: "string \<Rightarrow> string" where
  "ToLower s = map lower_char s"

definition is_space :: "char \<Rightarrow> bool" where
  "is_space c = ((of_char c :: nat) \<in> {9, 10, 11, 12, 13, 32})"

definition TrimSpace :: "string \<Rightarrow> string" where
  "TrimSpace s = rev (dropWhile is_space (rev (dropWhile is_space s)))"

text \<open>\<open>strings.HasPrefix\<close> and \<open>strings.Contains\<close> for an arbitrary substring.\<close>

fun HasPrefix :: "string \<Rightarrow> string \<Rightarrow> bool" where
  "HasPrefix s [] = True"
| "HasPrefix [] (p # ps) = False"
| "HasPrefix (c # cs) (p # ps) = (c = p \<and> HasPrefix cs ps)"

fun Contains :: "string \<Rightarrow> string \<Rightarrow> bool" where
  "Contains [] sub = (sub = [])"
| "Contains (c # cs) sub = (HasPrefix (c # cs) sub \<or> Contains cs sub)"

text \<open>\<open>strings.TrimSuffix(s, ".")\<close>: one trailing copy of the suffix is removed.\<close>

definition TrimSuffix :: "string \<Rightarrow> string \<Rightarrow> string" where
  "TrimSuffix s suffix =
     (if length suffix \<le> length s \<and> drop (length s - length suffix) s = suffix
      then take (length s - length suffix) s else s)"

text \<open>
  \<open>strings.Count\<close> and \<open>strings.Split\<close>, for the one-byte separator that the callers
  pass (\<open>":"\<close>). \<open>Split\<close> always returns at least one part.
\<close>

definition Count :: "string \<Rightarrow> char \<Rightarrow> nat" where
  "Count s sep = length (filter (\<lambda>c. c = sep) s)"

fun Split :: "string \<Rightarrow> char \<Rightarrow> string list" where
  "Split [] sep = [] # []"
| "Split (c # cs) sep =
     (if c = sep then [] # Split cs sep
      else (case Split cs sep of p # ps \<Rightarrow> (c # p) # ps | [] \<Rightarrow> [c] # []))"

definition IndexByte :: "string \<Rightarrow> char \<Rightarrow> nat option" where
  "IndexByte s c = (if c \<in> set s then Some (length (takeWhile (\<lambda>x. x \<noteq> c) s)) else None)"

definition LastIndexByte :: "string \<Rightarrow> char \<Rightarrow> nat option" where
  "LastIndexByte s c =
     (if c \<in> set s then Some (length s - 1 - length (takeWhile (\<lambda>x. x \<noteq> c) (rev s)))
      else None)"

text \<open>
  \<open>net.SplitHostPort\<close>: the port starts after the last colon; a host in brackets must
  close just before that colon; a colon in an unbracketed host, and a stray bracket,
  are errors. The error is returned as its message (without the quotation marks that Go
  puts around the bracket); the callers only test whether there is one.
\<close>

definition SplitHostPort :: "string \<Rightarrow> string + (string \<times> string)" where
  "SplitHostPort hostport =
     (case LastIndexByte hostport CHR '':'' of
        None \<Rightarrow> Inl ''missing port in address''
      | Some i \<Rightarrow>
          if take 1 hostport = ''[''
          then (case IndexByte hostport CHR '']'' of
                  None \<Rightarrow> Inl ''missing ] in address''
                | Some e \<Rightarrow>
                    if e + 1 = length hostport then Inl ''missing port in address''
                    else if e + 1 = i
                    then (if CHR ''['' \<in> set (drop 1 hostport)
                          then Inl ''unexpected [ in address''
                          else if CHR '']'' \<in> set (drop (e + 1) hostport)
                          then Inl ''unexpected ] in address''
                          else Inr (take (e - 1) (drop 1 hostport), drop (i + 1) hostport))
                    else if take 1 (drop (e + 1) hostport) = '':''
                    then Inl ''too many colons in address''
                    else Inl ''missing port in address'')
          else (let host = take i hostport in
                if CHR '':'' \<in> set host then Inl ''too many colons in address''
                else if CHR ''['' \<in> set hostport then Inl ''unexpected [ in address''
                else if CHR '']'' \<in> set hostport then Inl ''unexpected ] in address''
                else Inr (host, drop (i + 1) hostport)))"

text \<open>
  \<open>base64.StdEncoding\<close>: the standard alphabet with \<open>=\<close> padding. The decoder skips
  carriage returns and line feeds, demands whole four-character groups, and accepts
  padding only in the last group. A decoding error is \<open>None\<close>.
\<close>

definition base64_alphabet :: string where
  "base64_alphabet = ''ABCDEFGHIJKLMNOPQRSTUVWXYZabcdefghijklmnopqrstuvwxyz0123456789+/''"

definition base64_value :: "char \<Rightarrow> nat option" where
  "base64_value c =
     (if c \<in> set base64_alphabet
      then Some (length (takeWhile (\<lambda>x. x \<noteq> c) base64_alphabet)) else None)"

definition base64_char :: "nat \<Rightarrow> char" where
  "base64_char n = base64_alphabet ! (n mod 64)"

fun decode_quanta :: "string \<Rightarrow> string option" where
  "decode_quanta [] = Some []"
| "decode_quanta [a] = None"
| "decode_quanta [a, b] = None"
| "decode_quanta [a, b, c] = None"
| "decode_quanta (a # b # c # d # rest) =
     (if rest = [] \<and> c = CHR ''='' \<and> d = CHR ''=''
      then (case (base64_value a, base64_value b) of
              (Some x, Some y) \<Rightarrow> Some [char_of ((x * 64 + y) div 16)]
            | _ \<Rightarrow> None)
      else if rest = [] \<and> d = CHR ''=''
      then (case (base64_value a, base64_value b, base64_value c) of
              (Some x, Some y, Some z) \<Rightarrow>
                (let n = (x * 64 + y) * 64 + z in
                 Some [char_of (n div 1024), char_of (n div 4 mod 256)])
            | _ \<Rightarrow> None)
      else (case (base64_value a, base64_value b, base64_value c, base64_value d) of
              (Some x, Some y, Some z, Some w) \<Rightarrow>
                (let n = ((x * 64 + y) * 64 + z) * 64 + w in
                 case decode_quanta rest of
                   None \<Rightarrow> None
                 | Some bs \<Rightarrow>
                     Some (char_of (n div 65536) # char_of (n div 256 mod 256) # char_of (n mod 256) # bs))
            | _ \<Rightarrow> None))"

definition DecodeString :: "string \<Rightarrow> string option" where
  "DecodeString s = decode_quanta (filter (\<lambda>c. c \<noteq> CHR 0x0D \<and> c \<noteq> CHR 0x0A) s)"

fun EncodeToString :: "string \<Rightarrow> string" where
  "EncodeToString [] = []"
| "EncodeToString [a] =
     (let n = (of_char a :: nat) * 16 in
      [base64_char (n div 64), base64_char n, CHR ''='', CHR ''=''])"
| "EncodeToString [a, b] =
     (let n = ((of_char a :: nat) * 256 + of_char b) * 4 in
      [base64_char (n div 4096), base64_char (n div 64), base64_char n, CHR ''=''])"
| "EncodeToString (a # b # c # rest) =
     (let n = ((of_char a :: nat) * 256 + of_char b) * 256 + of_char c in
      [base64_char (n div 262144), base64_char (n div 4096), base64_char (n div 64), base64_char n]
      @ EncodeToString rest)"

text \<open>\<open>strconv.FormatUint(n, 10)\<close>: the decimal digits of \<open>n\<close>.\<close>

fun FormatUint :: "nat \<Rightarrow> string" where
  "FormatUint n =
     (if n < 10 then [char_of (48 + n)]
      else FormatUint (n div 10) @ [char_of (48 + n mod 10)])"

declare FormatUint.simps [simp del]

text \<open>
  A Go \<open>map[string][]string\<close> of headers is an association list with distinct keys;
  the order of the list stands for the (unspecified) iteration order of the Go map.
\<close>

type_synonym headers = "(string \<times> string list) list"

text \<open>
  \<open>textproto.CanonicalMIMEHeaderKey\<close>, which \<open>http.Header.Add\<close> applies to the key: a key
  made of header-token bytes only gets an upper-case first letter and an upper-case
  letter after each hyphen, all other letters lower-case; any other key is left as it is.
\<close>

text \<open>
  The header-token bytes are the digits, the letters and
  \<open>! # $ % & ' * + - . ^ _ ` | ~\<close> (given below by their codes).
\<close>

definition validHeaderFieldByte :: "char \<Rightarrow> bool" where
  "validHeaderFieldByte c =
     (let n = (of_char c :: nat) in
      (48 \<le> n \<and> n \<le> 57) \<or> (97 \<le> n \<and> n \<le> 122) \<or> (65 \<le> n \<and> n \<le> 90)
      \<or> n \<in> {33, 35, 36, 37, 38, 39, 42, 43, 45, 46, 94, 95, 96, 124, 126})"

fun canon_loop :: "bool \<Rightarrow> string \<Rightarrow> string" where
  "canon_loop upper [] = []"
| "canon_loop upper (c # cs) =
     (let c' = (if upper then upper_char c else lower_char c)
      in c' # canon_loop (c' = CHR ''-'') cs)"

definition CanonicalMIMEHeaderKey :: "string \<Rightarrow> string" where
  "CanonicalMIMEHeaderKey s = (if list_all validHeaderFieldByte s then canon_loop True s else s)"

definition Header_Add :: "headers \<Rightarrow> string \<Rightarrow> string \<Rightarrow> headers" where
  "Header_Add h key v =
     (let k = CanonicalMIMEHeaderKey key in
      AList.update k ((case map_of h k of None \<Rightarrow> [] | Some vs \<Rightarrow> vs) @ [v]) h)"

text \<open>
  \<open>io.ReadAll(io.LimitReader(body, n))\<close>. A body is a stream that yields its bytes and
  then ends, either normally or with a read error. The limited reader reports the end
  of the stream once \<open>n\<close> bytes have been read, whatever follows them.
\<close>

type_synonym body_stream = "string \<times> string option"

definition ReadAll_LimitReader :: "body_stream \<Rightarrow> nat \<Rightarrow> string + string" where
  "ReadAll_LimitReader b n =
     (case b of (bytes, err) \<Rightarrow>
        if n \<le> length bytes then Inr (take n bytes)
        else (case err of None \<Rightarrow> Inr bytes | Some e \<Rightarrow> Inl e))"

text \<open>
  An \<open>http.ResponseWriter\<close> is modelled by what is written to it: the status code, the
  header map and the body. \<open>http.Error\<close> writes a plain-text reply.
\<close>

record Response =
  status :: int
  header :: headers
  body :: string

definition http_Error :: "string \<Rightarrow> int \<Rightarrow> Response" where
  "http_Error msg code =
     \<lparr>status = code,
      header = [(''Content-Type'', [''text/plain; charset=utf-8'']),
                (''X-Content-Type-Options'', [''nosniff''])],
      body = msg @ [CHR 0x0A]\<rparr>"

definition http_NotFound :: Response where
  "http_NotFound = http_Error ''404 page not found'' 404"

section \<open>Wire types (package protocol)\<close>

record Route =
  Hostname :: string
  Target :: string

record Envelope =
  Type :: string
  RequestID :: string
  Method :: string
  Path :: string
  Query :: string
  Headers :: headers
  Body :: string
  Status :: int
  Hostname :: string
  Target :: string
  Routes :: "Route list"
  Message :: string

definition TypeRegisterRoutes :: string where "TypeRegisterRoutes = ''register_routes''"
definition TypeProxyRequest :: string where "TypeProxyRequest = ''proxy_request''"
definition TypeProxyResponse :: string where "TypeProxyResponse = ''proxy_response''"
definition TypeError :: string where "TypeError = ''error''"

definition CloneHeaders :: "headers \<Rightarrow> headers" where
  "CloneHeaders h = (if length h = 0 then [] else map (\<lambda>(k, v). (k, take (length v) v)) h)"

section \<open>Agent side: route validation (internal/agent/config.go)\<close>

definition NormalizeHostname :: "string \<Rightarrow> string + string" where
  "NormalizeHostname hostname =
     (let host = TrimSuffix (TrimSpace (ToLower hostname)) ''.'' in
      if host = [] then Inl ''hostname is required''
      else if Contains host '' '' then Inl ''hostname cannot contain spaces''
      else if Contains host '':'' then Inl ''hostname cannot include port''
      else if \<not> Contains host ''.'' then Inl ''hostname must be a domain, e.g. app.example.com''
      else Inr host)"

definition NormalizeTarget :: "string \<Rightarrow> string + string" where
  "NormalizeTarget target =
     (let t = TrimSpace target in
      if t = [] then Inl ''target is required''
      else if Contains t ''http://'' \<or> Contains t ''https://''
      then Inl ''target should be host:port, e.g. 127.0.0.1:3000''
      else if \<not> Contains t '':'' then Inl ''target must include port, e.g. 127.0.0.1:3000''
      else Inr t)"

section \<open>Gateway side: host normalization (package server)\<close>

definition normalizeHost :: "string \<Rightarrow> string" where
  "normalizeHost host0 =
     (let host = TrimSpace (ToLower host0) in
      if host = [] then []
      else if Contains host '':''
      then (case SplitHostPort host of
              Inr (h, p) \<Rightarrow> TrimSpace (ToLower h)
            | Inl err \<Rightarrow>
                if Count host CHR '':'' = 1
                then TrimSpace (ToLower (hd (Split host CHR '':'')))
                else host)
      else host)"


section \<open>Agent side: the persisted route store (internal/agent/config.go)\<close>

text \<open>
  The store's \<open>map[string]Route\<close> is an association list with distinct keys. The file
  at the store's path is modelled by what \<open>load\<close> can observe of it: it does not exist,
  it cannot be read, it is not a JSON document of the expected shape, or it decodes to a
  list of routes. \<open>json.MarshalIndent\<close> followed by \<open>json.Unmarshal\<close> is taken to return
  the list that was encoded.
\<close>

datatype disk_file = Absent | Unreadable | Malformed | Doc "Route list"

record ConfigStore =
  routes :: "(string \<times> Route) list"




text \<open>
  \<open>snapshotLocked\<close> collects the routes and sorts them by hostname (byte-wise
  lexicographic order, as Go compares strings).
\<close>

definition snapshotLocked :: "ConfigStore \<Rightarrow> Route list" where
  "snapshotLocked s = sort_key Route.Hostname (map snd (routes s))"

text \<open>
  \<open>saveLocked\<close> writes a temporary file and renames it over the path, so the file at the
  path changes only when every step succeeds. Which step fails, if any, is an input.
  Encoding a list of routes (two strings each) cannot fail, so that error branch has no
  counterpart here.
\<close>

datatype fs_fault = NoFault | MkdirFails | WriteTempFails | RenameFails

definition saveLocked :: "fs_fault \<Rightarrow> disk_file \<Rightarrow> ConfigStore \<Rightarrow> string option \<times> disk_file" where
  "saveLocked flt f s =
     (let cfg = snapshotLocked s in
      if flt = MkdirFails then (Some ''create config dir'', f)
      else if flt = WriteTempFails then (Some ''write temp config'', f)
      else if flt = RenameFails then (Some ''replace config'', f)
      else (None, Doc cfg))"

fun build_next :: "Route list \<Rightarrow> (string \<times> Route) list \<Rightarrow> string + (string \<times> Route) list" where
  "build_next [] next = Inr next"
| "build_next (route # rest) next =
     (case NormalizeHostname (Route.Hostname route) of
        Inl err \<Rightarrow> Inl err
      | Inr host \<Rightarrow>
          (case NormalizeTarget (Route.Target route) of
             Inl err \<Rightarrow> Inl err
           | Inr target \<Rightarrow>
               build_next rest (AList.update host \<lparr>Route.Hostname = host, Route.Target = target\<rparr> next)))"

definition same_routes :: "(string \<times> Route) list \<Rightarrow> (string \<times> Route) list \<Rightarrow> bool" where
  "same_routes next cur =
     list_all (\<lambda>(host, route).
       case map_of cur host of
         None \<Rightarrow> False
       | Some current \<Rightarrow> Route.Target current = Route.Target route) next"

text \<open>
  \<open>ReplaceAll\<close> returns \<open>(changed, err)\<close> together with the store and the file as it
  leaves them.
\<close>

definition ReplaceAll ::
  "fs_fault \<Rightarrow> Route list \<Rightarrow> ConfigStore \<times> disk_file \<Rightarrow> (bool \<times> string option) \<times> (ConfigStore \<times> disk_file)" where
  "ReplaceAll flt rs st =
     (case st of (s, f) \<Rightarrow>
        (case build_next rs [] of
           Inl err \<Rightarrow> ((False, Some err), (s, f))
         | Inr next \<Rightarrow>
             if length next = length (routes s) \<and> same_routes next (routes s)
             then ((False, None), (s, f))
             else (let s' = s\<lparr>routes := next\<rparr> in
                   case saveLocked flt f s' of
                     (Some err, f') \<Rightarrow> ((False, Some err), (s', f'))
                   | (None, f') \<Rightarrow> ((True, None), (s', f')))))"



section \<open>Gateway (package server)\<close>

definition maxBodySize :: nat where
  "maxBodySize = 10 * 2 ^ 20"

record routeBinding =
  Token :: string
  Target :: string

text \<open>
  A session is known by its token and its connection; the connection identifier stands
  for the identity of the Go pointer, since every accepted connection gets a session of
  its own. The map of pending response slots is left out: a slot is added before the
  request envelope is written and removed again on every return path of the handler.
\<close>

record AgentSession =
  Token :: string
  Conn :: nat

text \<open>
  The server's registry and routing table are Go maps keyed by token and by hostname.
  The field \<open>closed\<close> records the connections on which \<open>Close\<close> has been called.
\<close>

record TunnelServer =
  agents :: "string \<rightharpoonup> AgentSession"
  routes :: "string \<rightharpoonup> routeBinding"
  requestSeq :: "64 word"
  closed :: "nat set"

definition Close :: "nat \<Rightarrow> TunnelServer \<Rightarrow> TunnelServer" where
  "Close conn s = s\<lparr>closed := insert conn (closed s)\<rparr>"

definition swapAgent :: "string \<Rightarrow> AgentSession \<Rightarrow> TunnelServer \<Rightarrow> AgentSession option \<times> TunnelServer" where
  "swapAgent token next s = (agents s token, s\<lparr>agents := (agents s)(token \<mapsto> next)\<rparr>)"

text \<open>The loop that deletes every binding of a token while ranging over the table.\<close>

definition purge :: "string \<Rightarrow> (string \<rightharpoonup> routeBinding) \<Rightarrow> (string \<rightharpoonup> routeBinding)" where
  "purge token m =
     (\<lambda>host. case m host of
        None \<Rightarrow> None
      | Some binding \<Rightarrow> if routeBinding.Token binding = token then None else Some binding)"

definition cleanupAgent :: "AgentSession \<Rightarrow> TunnelServer \<Rightarrow> TunnelServer" where
  "cleanupAgent session s =
     (case agents s (AgentSession.Token session) of
        Some current \<Rightarrow>
          if current = session
          then s\<lparr>agents := (agents s)(AgentSession.Token session := None),
                 routes := purge (AgentSession.Token session) (TunnelServer.routes s)\<rparr>
          else s
      | None \<Rightarrow> s)"

fun insert_routes ::
  "string \<Rightarrow> Route list \<Rightarrow> (string \<rightharpoonup> routeBinding) \<Rightarrow> (string \<rightharpoonup> routeBinding)" where
  "insert_routes token [] m = m"
| "insert_routes token (route # rest) m =
     (let host = normalizeHost (Route.Hostname route);
          target = TrimSpace (Route.Target route)
      in if host = [] \<or> target = [] then insert_routes token rest m
         else insert_routes token rest
                (m(host \<mapsto> \<lparr>routeBinding.Token = token, routeBinding.Target = target\<rparr>)))"

definition applyRoutes :: "string \<Rightarrow> Route list \<Rightarrow> TunnelServer \<Rightarrow> TunnelServer" where
  "applyRoutes token rs s =
     s\<lparr>routes := insert_routes token rs (purge token (TunnelServer.routes s))\<rparr>"

text \<open>
  \<open>HandleConnect\<close> up to the point where it enters the read loop: the reply written (if
  any), the new session (if the upgrade succeeded) and the server state. The upgrade's
  outcome is an input: the new connection, or none when the upgrade fails.
\<close>

definition HandleConnect ::
  "string \<Rightarrow> nat option \<Rightarrow> TunnelServer \<Rightarrow> Response option \<times> AgentSession option \<times> TunnelServer" where
  "HandleConnect token_param upgrade s =
     (let token = TrimSpace token_param in
      if token = [] then (Some (http_Error ''missing token'' 400), None, s)
      else (case upgrade of
              None \<Rightarrow> (None, None, s)
            | Some conn \<Rightarrow>
                (let session = \<lparr>AgentSession.Token = token, Conn = conn\<rparr> in
                 case swapAgent token session s of
                   (previous, s1) \<Rightarrow>
                     (None, Some session,
                      (case previous of None \<Rightarrow> s1 | Some p \<Rightarrow> Close (Conn p) s1)))))"

text \<open>
  The read loop handles the envelopes that arrive until the read fails, then runs the
  deferred cleanup and closes the connection. A \<open>proxy_response\<close> goes to its pending
  slot and an \<open>error\<close> is logged; neither changes the registry or the routing table.
\<close>

definition dispatch :: "AgentSession \<Rightarrow> Envelope \<Rightarrow> TunnelServer \<Rightarrow> TunnelServer" where
  "dispatch session env s =
     (if Type env = TypeRegisterRoutes
      then applyRoutes (AgentSession.Token session) (Routes env) s
      else s)"

definition readLoop :: "AgentSession \<Rightarrow> Envelope list \<Rightarrow> TunnelServer \<Rightarrow> TunnelServer" where
  "readLoop session envs s =
     Close (Conn session) (cleanupAgent session (fold (dispatch session) envs s))"

definition hopHeaders :: "string list" where
  "hopHeaders =
     [''Connection'', ''Proxy-Connection'', ''Keep-Alive'', ''Proxy-Authenticate'',
      ''Proxy-Authorization'', ''Te'', ''Trailer'', ''Transfer-Encoding'', ''Upgrade'']"

definition stripHopHeaders :: "headers \<Rightarrow> headers" where
  "stripHopHeaders headers =
     fold (\<lambda>key h. AList.delete (ToLower key) (AList.delete key h)) hopHeaders headers"

text \<open>The public request, as far as the handler reads it.\<close>

record Request =
  Method :: string
  Host :: string
  URL_Path :: string
  URL_RawQuery :: string
  Header :: headers
  Body :: body_stream
  RemoteAddr :: string
  TLS :: bool

definition extractClientIP :: "string \<Rightarrow> string" where
  "extractClientIP remoteAddr =
     (case SplitHostPort remoteAddr of Inl err \<Rightarrow> remoteAddr | Inr (host, port) \<Rightarrow> host)"

definition appendXForwarded :: "headers \<Rightarrow> Request \<Rightarrow> headers" where
  "appendXForwarded headers r =
     (let clientIP = extractClientIP (RemoteAddr r);
          h1 = (if clientIP \<noteq> []
                then AList.update ''X-Forwarded-For''
                       ((case map_of headers ''X-Forwarded-For'' of None \<Rightarrow> [] | Some vs \<Rightarrow> vs)
                        @ [clientIP]) headers
                else headers);
          h2 = AList.update ''X-Forwarded-Host'' [normalizeHost (Host r)] h1
      in AList.update ''X-Forwarded-Proto'' [if TLS r then ''https'' else ''http''] h2)"

fun add_items :: "string \<Rightarrow> string list \<Rightarrow> headers \<Rightarrow> headers" where
  "add_items k [] h = h"
| "add_items k (item # items) h = add_items k items (Header_Add h k item)"

fun add_headers :: "headers \<Rightarrow> headers \<Rightarrow> headers" where
  "add_headers [] h = h"
| "add_headers ((k, v) # rest) h = add_headers rest (add_items k v h)"

definition writeResponse :: "Envelope \<Rightarrow> Response" where
  "writeResponse resp =
     (let st = (if Envelope.Status resp = 0 then 502 else Envelope.Status resp);
          hdr = add_headers (Headers resp) []
      in if Envelope.Body resp = [] then \<lparr>status = st, header = hdr, body = []\<rparr>
         else (case DecodeString (Envelope.Body resp) of
                 None \<Rightarrow> \<lparr>status = st, header = hdr, body = ''decode response body failed''\<rparr>
               | Some b \<Rightarrow> \<lparr>status = st, header = hdr, body = b\<rparr>))"

text \<open>
  \<open>HandlePublicHTTP\<close> returns the reply written to the public client, the envelope
  handed to the session's \<open>Write\<close> (if the handler got that far) and the server state.
  Two outcomes come from outside: whether the write to the session succeeds, and what
  the \<open>select\<close> sees first, the response envelope (\<open>Some\<close>) or the timer (\<open>None\<close>).
\<close>

definition HandlePublicHTTP ::
  "TunnelServer \<Rightarrow> Request \<Rightarrow> bool \<Rightarrow> Envelope option \<Rightarrow> Response \<times> Envelope option \<times> TunnelServer" where
  "HandlePublicHTTP s r write_ok await =
     (let host = normalizeHost (Host r) in
      if host = [] then (http_Error ''invalid host'' 400, None, s)
      else (case TunnelServer.routes s host of
        None \<Rightarrow> (http_NotFound, None, s)
      | Some binding \<Rightarrow>
        (case agents s (routeBinding.Token binding) of
           None \<Rightarrow> (http_Error ''tunnel offline'' 503, None, s)
         | Some session \<Rightarrow>
           (case ReadAll_LimitReader (Request.Body r) maxBodySize of
              Inl err \<Rightarrow> (http_Error ''read request failed'' 400, None, s)
            | Inr payload \<Rightarrow>
              (let headers = appendXForwarded (stripHopHeaders (CloneHeaders (Header r))) r;
                   s' = s\<lparr>requestSeq := requestSeq s + 1\<rparr>;
                   requestID = FormatUint (unat (requestSeq s'));
                   env = \<lparr>Type = TypeProxyRequest, RequestID = requestID,
                          Method = Request.Method r, Path = URL_Path r, Query = URL_RawQuery r,
                          Headers = headers, Body = EncodeToString payload, Status = 0,
                          Hostname = host, Target = routeBinding.Target binding,
                          Routes = [], Message = []\<rparr>
               in if \<not> write_ok then (http_Error ''send to tunnel failed'' 502, Some env, s')
                  else (case await of
                          Some resp \<Rightarrow> (writeResponse resp, Some env, s')
                        | None \<Rightarrow> (http_Error ''tunnel timeout'' 504, Some env, s')))))))"

section \<open>Agent: forwarding to the local target (internal/agent/service.go)\<close>

definition maxProxyBodySize :: nat where
  "maxProxyBodySize = 10 * 2 ^ 20"

definition agent_stripHopHeaders :: "headers \<Rightarrow> headers" where
  "agent_stripHopHeaders headers =
     fold (\<lambda>key h. AList.delete (ToLower key) (AList.delete key h))
       [''Connection'', ''Proxy-Connection'', ''Keep-Alive'', ''Proxy-Authenticate'',
        ''Proxy-Authorization'', ''Te'', ''Trailer'', ''Transfer-Encoding'', ''Upgrade'']
       headers"

text \<open>
  The request that the agent hands to its HTTP client, and the client's answer. The
  request's \<open>Host\<close> is \<open>Some\<close> public hostname when the envelope names one, otherwise the
  host of the URL. Whether \<open>http.NewRequest\<close> accepts the method and the URL, and what the
  client returns (an error message or a response), come from outside.
\<close>

record LocalRequest =
  lr_Method :: string
  lr_URL :: string
  lr_Host :: "string option"
  lr_Header :: headers
  lr_Body :: string

record LocalResponse =
  StatusCode :: int
  lresp_Header :: headers
  lresp_Body :: body_stream

definition plain_text :: headers where
  "plain_text = [(''Content-Type'', [''text/plain; charset=utf-8''])]"

definition forwardToLocal ::
  "(string \<Rightarrow> string \<Rightarrow> bool) \<Rightarrow> (LocalRequest \<Rightarrow> string + LocalResponse) \<Rightarrow> Envelope
     \<Rightarrow> int \<times> headers \<times> string" where
  "forwardToLocal new_request_ok client_do req =
     (if Envelope.Target req = [] then (502, plain_text, ''missing target'')
      else (case DecodeString (Envelope.Body req) of
        None \<Rightarrow> (400, plain_text, ''invalid request body'')
      | Some payload \<Rightarrow>
        (let fullURL0 = ''http://'' @ Envelope.Target req @ Path req;
             fullURL = (if Query req \<noteq> [] then fullURL0 @ ''?'' @ Query req else fullURL0)
         in if \<not> new_request_ok (Envelope.Method req) fullURL
            then (502, plain_text, ''build local request failed'')
            else
             (let localReq =
                    \<lparr>lr_Method = Envelope.Method req, lr_URL = fullURL,
                     lr_Host = (if Envelope.Hostname req \<noteq> [] then Some (Envelope.Hostname req) else None),
                     lr_Header = agent_stripHopHeaders (add_headers (Headers req) []),
                     lr_Body = payload\<rparr>
              in case client_do localReq of
                   Inl err \<Rightarrow> (502, plain_text, ''local request failed: '' @ err)
                 | Inr localResp \<Rightarrow>
                     (case ReadAll_LimitReader (lresp_Body localResp) maxProxyBodySize of
                        Inl err \<Rightarrow> (502, plain_text, ''read local response failed'')
                      | Inr respBody \<Rightarrow>
                          (StatusCode localResp,
                           agent_stripHopHeaders
                             (map (\<lambda>(k, v). (k, take (length v) v)) (lresp_Header localResp)),
                           respBody))))))"

definition handleProxyRequest ::
  "(string \<Rightarrow> string \<Rightarrow> bool) \<Rightarrow> (LocalRequest \<Rightarrow> string + LocalResponse) \<Rightarrow> Envelope
     \<Rightarrow> Envelope" where
  "handleProxyRequest new_request_ok client_do req =
     (case forwardToLocal new_request_ok client_do req of
        (st, headers, payload) \<Rightarrow>
          \<lparr>Type = TypeProxyResponse, RequestID = RequestID req, Method = [], Path = [],
           Query = [], Headers = headers, Body = EncodeToString payload, Status = st,
           Hostname = [], Target = [], Routes = [], Message = []\<rparr>)"


section \<open>Example states\<close>

text \<open>
  A gateway with one live session (token \<open>tok\<close>) that owns \<open>app.example.com\<close>, and a
  binding left over for a token without a session.
\<close>

definition example_server :: TunnelServer where
  "example_server =
     \<lparr>agents = [''tok'' \<mapsto> \<lparr>AgentSession.Token = ''tok'', Conn = 1\<rparr>],
      routes = [''app.example.com'' \<mapsto>
                  \<lparr>routeBinding.Token = ''tok'', routeBinding.Target = ''127.0.0.1:3000''\<rparr>,
                ''gone.example.com'' \<mapsto>
                  \<lparr>routeBinding.Token = ''old'', routeBinding.Target = ''127.0.0.1:4000''\<rparr>],
      requestSeq = 0, closed = {}\<rparr>"

definition example_request :: "string \<Rightarrow> body_stream \<Rightarrow> Request" where
  "example_request h b =
     \<lparr>Method = ''GET'', Host = h, URL_Path = ''/'', URL_RawQuery = [],
      Header = [(''Connection'', [''close'']), (''Accept'', [''*/*''])],
      Body = b, RemoteAddr = ''10.0.0.1:5555'', TLS = False\<rparr>"

definition example_store :: ConfigStore where
  "example_store =
     \<lparr>ConfigStore.routes =
        [(''old.example.com'',
          \<lparr>Route.Hostname = ''old.example.com'', Route.Target = ''127.0.0.1:1''\<rparr>)]\<rparr>"

definition example_file :: disk_file where
  "example_file = Doc [\<lparr>Route.Hostname = ''old.example.com'', Route.Target = ''127.0.0.1:1''\<rparr>]"

definition example_routes :: "Route list" where
  "example_routes =
     [\<lparr>Route.Hostname = ''New.Example.com:443'', Route.Target = '' 127.0.0.1:5000 ''\<rparr>,
      \<lparr>Route.Hostname = ''   '', Route.Target = ''127.0.0.1:1''\<rparr>]"

text \<open>A \<open>proxy_response\<close> with status 200 whose body is not base64.\<close>

definition bad_response :: Envelope where
  "bad_response =
     \<lparr>Type = TypeProxyResponse, RequestID = ''1'', Method = [], Path = [], Query = [],
      Headers = [(''content-type'', [''text/html''])], Body = ''!!!'', Status = 200,
      Hostname = [], Target = [], Routes = [], Message = []\<rparr>"

text \<open>
  A body one byte longer than the cap, a well-formed response, and the agent-side
  counterparts: a request envelope for the local target and a local response whose body
  is one byte longer than the cap.
\<close>

definition big_body :: string where
  "big_body = replicate (maxBodySize + 1) (CHR ''a'')"

definition ok_response :: Envelope where
  "ok_response =
     \<lparr>Type = TypeProxyResponse, RequestID = ''1'', Method = [], Path = [], Query = [],
      Headers = [], Body = ''b2s='', Status = 200,
      Hostname = [], Target = [], Routes = [], Message = []\<rparr>"

definition local_request :: Envelope where
  "local_request =
     \<lparr>Type = TypeProxyRequest, RequestID = ''1'', Method = ''GET'', Path = ''/'', Query = [],
      Headers = [], Body = [], Status = 0,
      Hostname = ''app.example.com'', Target = ''127.0.0.1:3000'', Routes = [], Message = []\<rparr>"

definition big_local_response :: LocalResponse where
  "big_local_response =
     \<lparr>StatusCode = 200, lresp_Header = [],
      lresp_Body = (replicate (maxProxyBodySize + 1) (CHR ''a''), None)\<rparr>"


section \<open>Notions used in the statements\<close>

text \<open>
  What a \<open>register_routes\<close> payload publishes: for each route, in order, the host as
  \<open>normalizeHost\<close> returns it and the target with surrounding white space removed,
  leaving out the routes for which either is empty.
\<close>

definition published :: "Route list \<Rightarrow> (string \<times> string) list" where
  "published rs =
     map (\<lambda>r. (normalizeHost (Route.Hostname r), TrimSpace (Route.Target r)))
       (filter (\<lambda>r. normalizeHost (Route.Hostname r) \<noteq> [] \<and> TrimSpace (Route.Target r) \<noteq> []) rs)"


text \<open>A string with no white space at either end.\<close>

definition trimmed :: "string \<Rightarrow> bool" where
  "trimmed s = (s = [] \<or> (\<not> is_space (hd s) \<and> \<not> is_space (last s)))"


section \<open>Evaluations used below\<close>

lemma normalizeHost_blank: "normalizeHost ''   '' = []"
  by code_simp

lemma normalizeHost_nope: "normalizeHost ''nope.example.com'' = ''nope.example.com''"
  by code_simp

lemma normalizeHost_gone: "normalizeHost ''Gone.Example.com'' = ''gone.example.com''"
  by code_simp

lemma normalizeHost_app: "normalizeHost ''App.Example.com:80'' = ''app.example.com''"
  by code_simp

lemma read_hi: "ReadAll_LimitReader (''hi'', None) maxBodySize = Inr ''hi''"
  by (simp add: ReadAll_LimitReader_def maxBodySize_def)

section \<open>Facts about the string functions\<close>

lemma of_char_lower:
  "(of_char (lower_char c) :: nat) =
     (if 65 \<le> (of_char c :: nat) \<and> (of_char c :: nat) \<le> 90 then of_char c + 32 else of_char c)"
  by (simp add: lower_char_def Let_def)

lemma of_char_upper:
  "(of_char (upper_char c) :: nat) =
     (if 97 \<le> (of_char c :: nat) \<and> (of_char c :: nat) \<le> 122 then of_char c - 32 else of_char c)"
  by (auto simp add: upper_char_def Let_def)

lemma char_eq_nat: "(c = d) \<longleftrightarrow> (of_char c :: nat) = of_char d"
  by simp

lemma lower_lower [simp]: "lower_char (lower_char c) = lower_char c"
  by (simp add: char_eq_nat of_char_lower)

lemma upper_lower [simp]: "upper_char (lower_char c) = upper_char c"
  by (simp add: char_eq_nat of_char_lower of_char_upper)

lemma is_space_lower [simp]: "is_space (lower_char c) = is_space c"
  by (auto simp add: is_space_def of_char_lower)

lemma valid_lower [simp]: "validHeaderFieldByte (lower_char c) = validHeaderFieldByte c"
  by (auto simp add: validHeaderFieldByte_def Let_def of_char_lower)

lemma lower_eq_colon [simp]: "lower_char c = CHR '':'' \<longleftrightarrow> c = CHR '':''"
  by (auto simp add: char_eq_nat of_char_lower)

lemma ToLower_idem [simp]: "ToLower (ToLower s) = ToLower s"
  by (simp add: ToLower_def)

lemma colon_eq_lower [simp]: "CHR '':'' = lower_char c \<longleftrightarrow> c = CHR '':''"
  by (auto simp add: char_eq_nat of_char_lower)

lemma colon_ToLower [simp]: "CHR '':'' \<in> set (ToLower s) \<longleftrightarrow> CHR '':'' \<in> set s"
  by (induction s) (auto simp add: ToLower_def)

lemma ToLower_Nil [simp]: "ToLower [] = []"
  by (simp add: ToLower_def)

lemma TrimSpace_Nil [simp]: "TrimSpace [] = []"
  by (simp add: TrimSpace_def)



lemma TrimSpace_trimmed:
  assumes "trimmed s"
  shows "TrimSpace s = s"
proof (cases "s = []")
  case True
  then show ?thesis by simp
next
  case False
  with assms have h: "\<not> is_space (hd s)" and l: "\<not> is_space (last s)"
    by (auto simp add: trimmed_def)
  from h have "dropWhile is_space s = s"
    by (simp add: dropWhile_eq_self_iff)
  moreover from l have "dropWhile is_space (rev s) = rev s"
    by (simp add: dropWhile_eq_self_iff hd_rev)
  ultimately show ?thesis by (simp add: TrimSpace_def)
qed

lemma last_dropWhile_keep: "dropWhile P xs \<noteq> [] \<Longrightarrow> last (dropWhile P xs) = last xs"
  by (metis last_appendR takeWhile_dropWhile_id)

lemma trimmed_TrimSpace: "trimmed (TrimSpace s)"
proof (cases "TrimSpace s = []")
  case True
  then show ?thesis by (simp add: trimmed_def)
next
  case False
  let ?u = "dropWhile is_space s"
  let ?v = "dropWhile is_space (rev ?u)"
  from False have v: "?v \<noteq> []" by (simp add: TrimSpace_def)
  have u: "?u \<noteq> []"
  proof
    assume "?u = []"
    then have "?v = []" by (simp del: dropWhile_eq_Nil_conv)
    with v show False by simp
  qed
  have "last (TrimSpace s) = hd ?v"
    using v by (simp add: TrimSpace_def last_rev)
  moreover have "\<not> is_space (hd ?v)"
    using v by (rule hd_dropWhile)
  moreover have "hd (TrimSpace s) = last ?v"
    using v by (simp add: TrimSpace_def hd_rev)
  moreover have "last ?v = last (rev ?u)"
    using v by (rule last_dropWhile_keep)
  moreover have "last (rev ?u) = hd ?u"
    using u by (simp add: last_rev)
  moreover have "\<not> is_space (hd ?u)"
    using u by (rule hd_dropWhile)
  ultimately show ?thesis by (simp add: trimmed_def)
qed

lemma TrimSpace_idem [simp]: "TrimSpace (TrimSpace s) = TrimSpace s"
  by (rule TrimSpace_trimmed) (rule trimmed_TrimSpace)



lemma Contains_single [simp]: "Contains s [c] \<longleftrightarrow> c \<in> set s"
  by (induction s) auto





section \<open>The gateway's own status codes\<close>

text \<open>
  Claim C2. The public handler runs its checks in order. An empty normalized host gives
  400. Otherwise a host without a binding gives 404. Otherwise a binding whose token has
  no session gives 503. Once the body has been read, a failed write of the
  \<open>proxy_request\<close> envelope gives 502, and a successful write followed by the timer firing
  before any response gives 504.
\<close>

theorem HandlePublicHTTP_status_codes:
  "(normalizeHost (Host r) = [] \<longrightarrow> status (fst (HandlePublicHTTP s r w a)) = 400) \<and>
   (normalizeHost (Host r) \<noteq> [] \<and> TunnelServer.routes s (normalizeHost (Host r)) = None
      \<longrightarrow> status (fst (HandlePublicHTTP s r w a)) = 404) \<and>
   (normalizeHost (Host r) \<noteq> [] \<and> TunnelServer.routes s (normalizeHost (Host r)) = Some b
      \<and> agents s (routeBinding.Token b) = None
      \<longrightarrow> status (fst (HandlePublicHTTP s r w a)) = 503) \<and>
   (normalizeHost (Host r) \<noteq> [] \<and> TunnelServer.routes s (normalizeHost (Host r)) = Some b
      \<and> agents s (routeBinding.Token b) = Some sess
      \<and> ReadAll_LimitReader (Request.Body r) maxBodySize = Inr payload \<and> \<not> w
      \<longrightarrow> status (fst (HandlePublicHTTP s r w a)) = 502) \<and>
   (normalizeHost (Host r) \<noteq> [] \<and> TunnelServer.routes s (normalizeHost (Host r)) = Some b
      \<and> agents s (routeBinding.Token b) = Some sess
      \<and> ReadAll_LimitReader (Request.Body r) maxBodySize = Inr payload \<and> w \<and> a = None
      \<longrightarrow> status (fst (HandlePublicHTTP s r w a)) = 504)"
  by (simp add: HandlePublicHTTP_def Let_def http_Error_def http_NotFound_def)

theorem HandlePublicHTTP_status_codes_witness:
  "status (fst (HandlePublicHTTP example_server
      (example_request ''   '' (''hi'', None)) True None)) = 400 \<and>
   status (fst (HandlePublicHTTP example_server
      (example_request ''nope.example.com'' (''hi'', None)) True None)) = 404 \<and>
   status (fst (HandlePublicHTTP example_server
      (example_request ''Gone.Example.com'' (''hi'', None)) True None)) = 503 \<and>
   status (fst (HandlePublicHTTP example_server
      (example_request ''App.Example.com:80'' (''hi'', None)) False None)) = 502 \<and>
   status (fst (HandlePublicHTTP example_server
      (example_request ''App.Example.com:80'' (''hi'', None)) True None)) = 504"
  using HandlePublicHTTP_status_codes [where r = "example_request ''   '' (''hi'', None)"
       and s = example_server and w = True and a = None]
    HandlePublicHTTP_status_codes [where r = "example_request ''nope.example.com'' (''hi'', None)"
       and s = example_server and w = True and a = None]
    HandlePublicHTTP_status_codes [where r = "example_request ''Gone.Example.com'' (''hi'', None)"
       and s = example_server and w = True and a = None
       and b = "\<lparr>routeBinding.Token = ''old'', routeBinding.Target = ''127.0.0.1:4000''\<rparr>"]
    HandlePublicHTTP_status_codes [where r = "example_request ''App.Example.com:80'' (''hi'', None)"
       and s = example_server and w = False and a = None and payload = "''hi''"
       and b = "\<lparr>routeBinding.Token = ''tok'', routeBinding.Target = ''127.0.0.1:3000''\<rparr>"
       and sess = "\<lparr>AgentSession.Token = ''tok'', Conn = 1\<rparr>"]
    HandlePublicHTTP_status_codes [where r = "example_request ''App.Example.com:80'' (''hi'', None)"
       and s = example_server and w = True and a = None and payload = "''hi''"
       and b = "\<lparr>routeBinding.Token = ''tok'', routeBinding.Target = ''127.0.0.1:3000''\<rparr>"
       and sess = "\<lparr>AgentSession.Token = ''tok'', Conn = 1\<rparr>"]
  by (simp add: example_request_def example_server_def normalizeHost_blank normalizeHost_nope
      normalizeHost_gone normalizeHost_app read_hi)

section \<open>Replacing the agent's route set\<close>

lemma build_next_invalid:
  "r \<in> set rs \<Longrightarrow>
   isl (NormalizeHostname (Route.Hostname r)) \<or> isl (NormalizeTarget (Route.Target r)) \<Longrightarrow>
   isl (build_next rs acc)"
  by (induction rs arbitrary: acc) (auto split: sum.splits)

text \<open>
  Claim C10. When some route of the list fails hostname or target normalization,
  \<open>ReplaceAll\<close> returns an error with \<open>changed = false\<close> and leaves both the in-memory
  routes and the file as they were: the whole replacement is rejected.
\<close>

theorem ReplaceAll_rejects_invalid:
  assumes "r \<in> set rs"
    and "isl (NormalizeHostname (Route.Hostname r)) \<or> isl (NormalizeTarget (Route.Target r))"
  shows "\<exists>err. ReplaceAll flt rs (s, f) = ((False, Some err), (s, f))"
proof -
  have "isl (build_next rs [])"
    using assms by (rule build_next_invalid)
  then obtain err where "build_next rs [] = Inl err"
    by (cases "build_next rs []") auto
  then show ?thesis by (simp add: ReplaceAll_def)
qed

theorem ReplaceAll_rejects_invalid_witness:
  "\<exists>err. ReplaceAll NoFault
       [\<lparr>Route.Hostname = ''app.example.com'', Route.Target = ''127.0.0.1:3000''\<rparr>,
        \<lparr>Route.Hostname = ''localhost'', Route.Target = ''127.0.0.1:8080''\<rparr>]
       (example_store, example_file)
     = ((False, Some err), (example_store, example_file))"
proof (rule ReplaceAll_rejects_invalid)
  show "\<lparr>Route.Hostname = ''localhost'', Route.Target = ''127.0.0.1:8080''\<rparr>
      \<in> set [\<lparr>Route.Hostname = ''app.example.com'', Route.Target = ''127.0.0.1:3000''\<rparr>,
               \<lparr>Route.Hostname = ''localhost'', Route.Target = ''127.0.0.1:8080''\<rparr>]"
    by simp
  have "isl (NormalizeHostname ''localhost'')"
    by code_simp
  then show "isl (NormalizeHostname (Route.Hostname
                \<lparr>Route.Hostname = ''localhost'', Route.Target = ''127.0.0.1:8080''\<rparr>)) \<or>
             isl (NormalizeTarget (Route.Target
                \<lparr>Route.Hostname = ''localhost'', Route.Target = ''127.0.0.1:8080''\<rparr>))"
    by simp
qed

section \<open>Relaying the response\<close>

lemma writeResponse_status:
  "status (writeResponse resp) = (if Envelope.Status resp = 0 then 502 else Envelope.Status resp)"
  by (simp add: writeResponse_def Let_def split: option.splits)

lemma DecodeString_bangs: "DecodeString ''!!!'' = None"
  by code_simp

text \<open>
  Claim C4, at the input that separates the code from it: a \<open>proxy_response\<close> with status
  200 and the body \<open>!!!\<close>, which is not base64. \<open>writeResponse\<close> has sent the envelope's
  status before it decodes the body, so the reply is 200 with the diagnostic text, not 502.
\<close>

theorem writeResponse_decode_failure_keeps_status:
  "DecodeString (Envelope.Body bad_response) = None \<and>
   writeResponse bad_response =
     \<lparr>status = 200, header = [(''Content-Type'', [''text/html''])],
      body = ''decode response body failed''\<rparr>"
  by code_simp

section \<open>Hop-by-hop headers\<close>









section \<open>Replacing a token's bindings\<close>

lemma insert_routes_eq:
  "insert_routes t rs m =
     (\<lambda>h. case map_of (rev (published rs)) h of
        Some tg \<Rightarrow> Some \<lparr>routeBinding.Token = t, routeBinding.Target = tg\<rparr>
      | None \<Rightarrow> m h)"
proof (induction rs arbitrary: m)
  case Nil
  then show ?case by (simp add: published_def)
next
  case (Cons r rs)
  show ?case
    by (rule ext) (simp add: Cons.IH published_def Let_def map_add_def split: option.splits)
qed

lemma applyRoutes_lookup:
  "TunnelServer.routes (applyRoutes t R s) h =
     (case map_of (rev (published R)) h of
        Some tg \<Rightarrow> Some \<lparr>routeBinding.Token = t, routeBinding.Target = tg\<rparr>
      | None \<Rightarrow> (case TunnelServer.routes s h of
                   None \<Rightarrow> None
                 | Some b \<Rightarrow> if routeBinding.Token b = t then None else Some b))"
  by (simp add: applyRoutes_def insert_routes_eq purge_def)

lemma map_of_rev_None: "map_of (rev xs) h = None \<longleftrightarrow> h \<notin> fst ` set xs"
  by (simp add: map_of_eq_None_iff)

lemma published_example: "published example_routes = [(''new.example.com'', ''127.0.0.1:5000'')]"
  by code_simp

text \<open>
  Claim C1, as the code has it. After \<open>applyRoutes t R\<close> the bindings owned by \<open>t\<close> are
  exactly the published entries of \<open>R\<close> (hosts through the gateway's \<open>normalizeHost\<close>,
  targets trimmed, entries with an empty host or target skipped, the last entry winning
  for a repeated host). A binding that \<open>t\<close> owned before and whose host is not published
  is removed, and a binding of another token whose host is not published is unchanged.
\<close>

theorem applyRoutes_replaces_bindings:
  "{(h, routeBinding.Target b) | h b.
      TunnelServer.routes (applyRoutes t R s) h = Some b \<and> routeBinding.Token b = t}
     = {(h, tg). map_of (rev (published R)) h = Some tg} \<and>
   (\<forall>h b. TunnelServer.routes s h = Some b \<and> routeBinding.Token b = t \<and> h \<notin> fst ` set (published R)
      \<longrightarrow> TunnelServer.routes (applyRoutes t R s) h = None) \<and>
   (\<forall>h b. TunnelServer.routes s h = Some b \<and> routeBinding.Token b \<noteq> t \<and> h \<notin> fst ` set (published R)
      \<longrightarrow> TunnelServer.routes (applyRoutes t R s) h = Some b)"
proof (intro conjI allI impI)
  show "{(h, routeBinding.Target b) | h b.
      TunnelServer.routes (applyRoutes t R s) h = Some b \<and> routeBinding.Token b = t}
     = {(h, tg). map_of (rev (published R)) h = Some tg}"
    by (auto simp: applyRoutes_lookup split: option.splits if_splits)
next
  fix h b
  assume "TunnelServer.routes s h = Some b \<and> routeBinding.Token b = t \<and> h \<notin> fst ` set (published R)"
  then show "TunnelServer.routes (applyRoutes t R s) h = None"
    using map_of_rev_None[of "published R" h] by (simp add: applyRoutes_lookup)
next
  fix h b
  assume "TunnelServer.routes s h = Some b \<and> routeBinding.Token b \<noteq> t \<and> h \<notin> fst ` set (published R)"
  then show "TunnelServer.routes (applyRoutes t R s) h = Some b"
    using map_of_rev_None[of "published R" h] by (simp add: applyRoutes_lookup)
qed

theorem applyRoutes_replaces_bindings_witness:
  "TunnelServer.routes (applyRoutes ''tok'' example_routes example_server) ''app.example.com'' = None \<and>
   TunnelServer.routes (applyRoutes ''tok'' example_routes example_server) ''gone.example.com''
     = Some \<lparr>routeBinding.Token = ''old'', routeBinding.Target = ''127.0.0.1:4000''\<rparr> \<and>
   {(h, routeBinding.Target b) | h b.
      TunnelServer.routes (applyRoutes ''tok'' example_routes example_server) h = Some b
      \<and> routeBinding.Token b = ''tok''}
     = {(''new.example.com'', ''127.0.0.1:5000'')}"
proof -
  note inst = applyRoutes_replaces_bindings [of "''tok''" example_routes example_server]
  have a: "TunnelServer.routes example_server ''app.example.com''
      = Some \<lparr>routeBinding.Token = ''tok'', routeBinding.Target = ''127.0.0.1:3000''\<rparr>"
    and b: "TunnelServer.routes example_server ''gone.example.com''
      = Some \<lparr>routeBinding.Token = ''old'', routeBinding.Target = ''127.0.0.1:4000''\<rparr>"
    by (simp_all add: example_server_def)
  have "TunnelServer.routes (applyRoutes ''tok'' example_routes example_server) ''app.example.com'' = None"
    using inst a by (simp add: published_example)
  moreover have "TunnelServer.routes (applyRoutes ''tok'' example_routes example_server) ''gone.example.com''
     = Some \<lparr>routeBinding.Token = ''old'', routeBinding.Target = ''127.0.0.1:4000''\<rparr>"
    using inst b by (simp add: published_example)
  moreover have "{(h, tg). map_of (rev (published example_routes)) h = Some tg}
      = {(''new.example.com'', ''127.0.0.1:5000'')}"
    by (auto simp add: published_example split: if_splits)
  ultimately show ?thesis using inst by simp
qed

text \<open>
  Claim C1 as stated fails: the gateway does not apply the rules of the agent's
  \<open>NormalizeHostname\<close>. The agent rejects \<open>localhost\<close> (no dot), the gateway binds it; the
  agent strips the trailing dot of \<open>Api.Example.com.\<close>, the gateway binds the name with
  the dot.
\<close>

theorem applyRoutes_section3_counterexample:
  "isl (NormalizeHostname ''localhost'') \<and>
   TunnelServer.routes
     (applyRoutes ''tok'' [\<lparr>Route.Hostname = ''localhost'', Route.Target = ''127.0.0.1:3000''\<rparr>]
        example_server) ''localhost''
     = Some \<lparr>routeBinding.Token = ''tok'', routeBinding.Target = ''127.0.0.1:3000''\<rparr> \<and>
   NormalizeHostname ''Api.Example.com.'' = Inr ''api.example.com'' \<and>
   TunnelServer.routes
     (applyRoutes ''tok'' [\<lparr>Route.Hostname = ''Api.Example.com.'', Route.Target = ''127.0.0.1:3000''\<rparr>]
        example_server) ''api.example.com.''
     = Some \<lparr>routeBinding.Token = ''tok'', routeBinding.Target = ''127.0.0.1:3000''\<rparr> \<and>
   TunnelServer.routes
     (applyRoutes ''tok'' [\<lparr>Route.Hostname = ''Api.Example.com.'', Route.Target = ''127.0.0.1:3000''\<rparr>]
        example_server) ''api.example.com''
     = None"
  by code_simp

section \<open>Replacing a session\<close>

lemma applyRoutes_owned_from_published:
  assumes "TunnelServer.routes (applyRoutes t R s) h = Some b" and "routeBinding.Token b = t"
  shows "(h, routeBinding.Target b) \<in> set (published R)"
proof (cases "map_of (rev (published R)) h")
  case None
  with assms show ?thesis
    by (auto simp: applyRoutes_lookup split: option.splits if_splits)
next
  case (Some tg)
  then have "(h, tg) \<in> set (published R)"
    using map_of_SomeD[of "rev (published R)" h tg] by simp
  with Some assms show ?thesis
    by (auto simp: applyRoutes_lookup)
qed

text \<open>
  Claim C3, as the code has it. When a connection is accepted for a token that has a
  session, the registry maps the token to the new session only (other tokens are
  untouched) and the previous connection is closed. The routing table is not changed by
  the swap, and the cleanup of the previous session changes nothing, because the registry
  no longer points at it. The old bindings go when the new session publishes: after
  \<open>applyRoutes\<close> for the token, every binding it owns comes from the published list.
\<close>

theorem HandleConnect_replaces_session:
  assumes "agents s token = Some prev" and "AgentSession.Token prev = token"
    and "TrimSpace token_param = token" and "token \<noteq> []" and "Conn prev \<noteq> conn"
  shows "\<exists>s1. HandleConnect token_param (Some conn) s
            = (None, Some \<lparr>AgentSession.Token = token, Conn = conn\<rparr>, s1)
     \<and> agents s1 = (agents s)(token \<mapsto> \<lparr>AgentSession.Token = token, Conn = conn\<rparr>)
     \<and> Conn prev \<in> closed s1
     \<and> TunnelServer.routes s1 = TunnelServer.routes s
     \<and> cleanupAgent prev s1 = s1
     \<and> (\<forall>R h b. TunnelServer.routes (applyRoutes token R s1) h = Some b \<and> routeBinding.Token b = token
           \<longrightarrow> (h, routeBinding.Target b) \<in> set (published R))"
proof -
  let ?new = "\<lparr>AgentSession.Token = token, Conn = conn\<rparr>"
  let ?s1 = "Close (Conn prev) (s\<lparr>agents := (agents s)(token \<mapsto> ?new)\<rparr>)"
  have run: "HandleConnect token_param (Some conn) s = (None, Some ?new, ?s1)"
    using assms by (simp add: HandleConnect_def swapAgent_def Let_def)
  have neq: "?new \<noteq> prev"
    using assms(5) by auto
  have clean: "cleanupAgent prev ?s1 = ?s1"
    using assms(2) neq by (simp add: cleanupAgent_def Close_def)
  have owned: "\<forall>R h b. TunnelServer.routes (applyRoutes token R ?s1) h = Some b \<and> routeBinding.Token b = token
           \<longrightarrow> (h, routeBinding.Target b) \<in> set (published R)"
    using applyRoutes_owned_from_published by blast
  show ?thesis
    using run clean owned by (intro exI[of _ ?s1]) (simp add: Close_def)
qed

theorem HandleConnect_replaces_session_witness:
  "\<exists>s1. HandleConnect '' tok '' (Some 2) example_server
            = (None, Some \<lparr>AgentSession.Token = ''tok'', Conn = 2\<rparr>, s1)
     \<and> agents s1 = (agents example_server)(''tok'' \<mapsto> \<lparr>AgentSession.Token = ''tok'', Conn = 2\<rparr>)
     \<and> Conn \<lparr>AgentSession.Token = ''tok'', Conn = 1\<rparr> \<in> closed s1
     \<and> TunnelServer.routes s1 = TunnelServer.routes example_server
     \<and> cleanupAgent \<lparr>AgentSession.Token = ''tok'', Conn = 1\<rparr> s1 = s1
     \<and> (\<forall>R h b. TunnelServer.routes (applyRoutes ''tok'' R s1) h = Some b \<and> routeBinding.Token b = ''tok''
           \<longrightarrow> (h, routeBinding.Target b) \<in> set (published R))"
proof (rule HandleConnect_replaces_session)
  show "agents example_server ''tok'' = Some \<lparr>AgentSession.Token = ''tok'', Conn = 1\<rparr>"
    by (simp add: example_server_def)
  show "TrimSpace '' tok '' = ''tok''"
    by code_simp
qed simp_all

text \<open>
  Claim C3 as stated fails: the bindings of the token are not purged before the new
  session publishes. After the new connection for \<open>tok\<close> is accepted, and after the read
  loop of the previous session has ended and run its cleanup, \<open>app.example.com\<close> is
  still bound to \<open>tok\<close>.
\<close>

theorem HandleConnect_keeps_bindings_counterexample:
  "agents example_server ''tok'' = Some \<lparr>AgentSession.Token = ''tok'', Conn = 1\<rparr> \<and>
   fst (snd (HandleConnect ''tok'' (Some 2) example_server))
     = Some \<lparr>AgentSession.Token = ''tok'', Conn = 2\<rparr> \<and>
   TunnelServer.routes (snd (snd (HandleConnect ''tok'' (Some 2) example_server))) ''app.example.com''
     = Some \<lparr>routeBinding.Token = ''tok'', routeBinding.Target = ''127.0.0.1:3000''\<rparr> \<and>
   TunnelServer.routes
     (readLoop \<lparr>AgentSession.Token = ''tok'', Conn = 1\<rparr> []
        (snd (snd (HandleConnect ''tok'' (Some 2) example_server)))) ''app.example.com''
     = Some \<lparr>routeBinding.Token = ''tok'', routeBinding.Target = ''127.0.0.1:3000''\<rparr>"
  by code_simp

section \<open>Bodies longer than the cap\<close>

lemma DecodeString_Nil: "DecodeString [] = Some []"
  by code_simp

lemma copy_values: "map (\<lambda>(k, v). (k, take (length v) v)) h = h"
  by (induction h) auto

lemma CloneHeaders_copy: "CloneHeaders h = h"
  by (simp add: CloneHeaders_def copy_values)

lemma take_Cons_replicate: "take n (x # replicate n x) = replicate n x"
  by (induction n) simp_all

text \<open>
  Claim C6, as the code has it. A body longer than the cap is cut to its first 10 MiB by
  the limited reader and forwarded. On the gateway the \<open>proxy_request\<close> envelope carries
  the first \<open>maxBodySize\<close> bytes and the reply is whatever follows (502 on a failed write,
  504 on a timeout, else the relayed response); 400 is the reply to a read error that
  occurs before the cap is reached. On the agent the local response is returned with its
  own status and the first \<open>maxProxyBodySize\<close> bytes; a read error before the cap gives 502.
\<close>

theorem oversized_body_is_truncated:
  "(maxBodySize < length bytes \<and> Request.Body r = (bytes, err)
      \<and> normalizeHost (Host r) \<noteq> [] \<and> TunnelServer.routes s (normalizeHost (Host r)) = Some b
      \<and> agents s (routeBinding.Token b) = Some sess
    \<longrightarrow> (\<exists>env. fst (snd (HandlePublicHTTP s r w a)) = Some env
             \<and> Envelope.Body env = EncodeToString (take maxBodySize bytes))
        \<and> status (fst (HandlePublicHTTP s r w a))
            = (if \<not> w then 502
               else case a of None \<Rightarrow> 504 | Some resp \<Rightarrow> status (writeResponse resp))) \<and>
   (length bytes < maxBodySize \<and> Request.Body r = (bytes, Some e)
      \<and> normalizeHost (Host r) \<noteq> [] \<and> TunnelServer.routes s (normalizeHost (Host r)) = Some b
      \<and> agents s (routeBinding.Token b) = Some sess
    \<longrightarrow> status (fst (HandlePublicHTTP s r w a)) = 400
        \<and> fst (snd (HandlePublicHTTP s r w a)) = None) \<and>
   (maxProxyBodySize < length bytes \<and> lresp_Body lresp = (bytes, err)
      \<and> Envelope.Target req \<noteq> [] \<and> DecodeString (Envelope.Body req) = Some payload
    \<longrightarrow> forwardToLocal (\<lambda>m u. True) (\<lambda>lr. Inr lresp) req
          = (StatusCode lresp, agent_stripHopHeaders (lresp_Header lresp),
             take maxProxyBodySize bytes)) \<and>
   (length bytes < maxProxyBodySize \<and> lresp_Body lresp = (bytes, Some e)
      \<and> Envelope.Target req \<noteq> [] \<and> DecodeString (Envelope.Body req) = Some payload
    \<longrightarrow> forwardToLocal (\<lambda>m u. True) (\<lambda>lr. Inr lresp) req
          = (502, plain_text, ''read local response failed''))"
  by (auto simp add: HandlePublicHTTP_def forwardToLocal_def ReadAll_LimitReader_def Let_def
      http_Error_def copy_values split: option.splits)

theorem oversized_body_is_truncated_witness:
  "(\<exists>env. fst (snd (HandlePublicHTTP example_server
        (example_request ''App.Example.com:80'' (big_body, None)) True None)) = Some env
       \<and> Envelope.Body env = EncodeToString (take maxBodySize big_body)) \<and>
   status (fst (HandlePublicHTTP example_server
        (example_request ''App.Example.com:80'' (big_body, None)) True None)) = 504 \<and>
   status (fst (HandlePublicHTTP example_server
        (example_request ''App.Example.com:80'' (''hi'', Some ''reset'')) True None)) = 400 \<and>
   forwardToLocal (\<lambda>m u. True) (\<lambda>lr. Inr big_local_response) local_request
     = (200, agent_stripHopHeaders [],
        take maxProxyBodySize (replicate (maxProxyBodySize + 1) (CHR ''a''))) \<and>
   forwardToLocal (\<lambda>m u. True)
       (\<lambda>lr. Inr \<lparr>StatusCode = 200, lresp_Header = [], lresp_Body = (''hi'', Some ''reset'')\<rparr>)
       local_request
     = (502, plain_text, ''read local response failed'')"
proof -
  let ?b = "\<lparr>routeBinding.Token = ''tok'', routeBinding.Target = ''127.0.0.1:3000''\<rparr>"
  let ?sess = "\<lparr>AgentSession.Token = ''tok'', Conn = 1\<rparr>"
  have small: "length ''hi'' < maxBodySize" "length ''hi'' < maxProxyBodySize"
    by (simp_all add: maxBodySize_def maxProxyBodySize_def)
  have lk: "normalizeHost (Host (example_request ''App.Example.com:80'' bd)) \<noteq> []"
    "TunnelServer.routes example_server (normalizeHost (Host (example_request ''App.Example.com:80'' bd))) = Some ?b"
    "agents example_server (routeBinding.Token ?b) = Some ?sess" for bd
    by (simp_all add: example_request_def example_server_def normalizeHost_app)
  have dec: "Envelope.Target local_request \<noteq> []"
    "DecodeString (Envelope.Body local_request) = Some []"
    by (simp_all add: local_request_def DecodeString_Nil)
  note a = oversized_body_is_truncated [where bytes = big_body and err = None
      and r = "example_request ''App.Example.com:80'' (big_body, None)" and s = example_server
      and b = ?b and sess = ?sess and w = True and a = None, THEN conjunct1]
  note b = oversized_body_is_truncated [where bytes = "''hi''" and e = "''reset''"
      and r = "example_request ''App.Example.com:80'' (''hi'', Some ''reset'')" and s = example_server
      and b = ?b and sess = ?sess and w = True and a = None, THEN conjunct2, THEN conjunct1]
  note c = oversized_body_is_truncated [where bytes = "replicate (maxProxyBodySize + 1) (CHR ''a'')"
      and err = None and lresp = big_local_response and req = local_request and payload = "[]",
      THEN conjunct2, THEN conjunct2, THEN conjunct1]
  note d = oversized_body_is_truncated [where bytes = "''hi''" and e = "''reset''"
      and lresp = "\<lparr>StatusCode = 200, lresp_Header = [], lresp_Body = (''hi'', Some ''reset'')\<rparr>"
      and req = local_request and payload = "[]",
      THEN conjunct2, THEN conjunct2, THEN conjunct2]
  have "(\<exists>env. fst (snd (HandlePublicHTTP example_server
        (example_request ''App.Example.com:80'' (big_body, None)) True None)) = Some env
       \<and> Envelope.Body env = EncodeToString (take maxBodySize big_body)) \<and>
   status (fst (HandlePublicHTTP example_server
        (example_request ''App.Example.com:80'' (big_body, None)) True None)) = 504"
    using a lk by (simp add: big_body_def example_request_def)
  moreover have "status (fst (HandlePublicHTTP example_server
        (example_request ''App.Example.com:80'' (''hi'', Some ''reset'')) True None)) = 400"
    using b lk small by (simp add: example_request_def)
  moreover have "forwardToLocal (\<lambda>m u. True) (\<lambda>lr. Inr big_local_response) local_request
     = (200, agent_stripHopHeaders [],
        take maxProxyBodySize (replicate (maxProxyBodySize + 1) (CHR ''a'')))"
    using c dec by (simp add: big_local_response_def)
  moreover have "forwardToLocal (\<lambda>m u. True)
       (\<lambda>lr. Inr \<lparr>StatusCode = 200, lresp_Header = [], lresp_Body = (''hi'', Some ''reset'')\<rparr>)
       local_request
     = (502, plain_text, ''read local response failed'')"
    using d dec small by simp
  ultimately show ?thesis by blast
qed

text \<open>
  Claim C6 as stated fails: a request body of \<open>maxBodySize + 1\<close> bytes is not answered
  with 400. Its first \<open>maxBodySize\<close> bytes are forwarded and the agent's 200 is relayed;
  likewise the agent returns the local 200 with a truncated body.
\<close>

theorem oversized_body_counterexample:
  "maxBodySize < length big_body \<and>
   status (fst (HandlePublicHTTP example_server
      (example_request ''App.Example.com:80'' (big_body, None)) True (Some ok_response))) = 200 \<and>
   map_option Envelope.Body (fst (snd (HandlePublicHTTP example_server
      (example_request ''App.Example.com:80'' (big_body, None)) True (Some ok_response))))
     = Some (EncodeToString (replicate maxBodySize (CHR ''a''))) \<and>
   forwardToLocal (\<lambda>m u. True) (\<lambda>lr. Inr big_local_response) local_request
     = (200, [], replicate maxProxyBodySize (CHR ''a''))"
proof -
  have "agent_stripHopHeaders [] = []"
    by code_simp
  then show ?thesis
    by (simp add: HandlePublicHTTP_def forwardToLocal_def ReadAll_LimitReader_def Let_def
      big_body_def example_request_def example_server_def normalizeHost_app writeResponse_status
      ok_response_def local_request_def big_local_response_def DecodeString_Nil
      take_Cons_replicate)
qed

section \<open>Host normalization before the lookup\<close>













section \<open>Normalizing twice\<close>










section \<open>Saving and loading the route store\<close>











end
